theory Spec2Isabelle
  imports Complex_Main
begin

section \<open>Python strings\<close>

text \<open>
  A Python \<open>str\<close> is modelled as a \<open>string\<close>, one \<open>char\<close> per code point; the
  model therefore covers the code points 0 to 255. The character classes below are the
  ones of the Python runtime on that range.
\<close>

definition nl :: char where
  "nl = CHR 0x0A"

definition is_space :: "char \<Rightarrow> bool" where
  \<comment> \<open>\<open>str.isspace\<close>, which is also the class \<open>\s\<close> of \<open>re\<close>\<close>
  "is_space c =
     (let n = (of_char c :: nat)
      in (9 \<le> n \<and> n \<le> 13) \<or> (28 \<le> n \<and> n \<le> 32) \<or> n = 133 \<or> n = 160)"

definition lstrip :: "string \<Rightarrow> string" where
  "lstrip s = dropWhile is_space s"

definition rstrip :: "string \<Rightarrow> string" where
  "rstrip s = rev (dropWhile is_space (rev s))"

definition strip :: "string \<Rightarrow> string" where
  \<comment> \<open>\<open>s.strip()\<close>\<close>
  "strip s = rstrip (lstrip s)"

definition startswith :: "string \<Rightarrow> string \<Rightarrow> bool" where
  \<comment> \<open>\<open>s.startswith(p)\<close>\<close>
  "startswith s p = (take (length p) s = p)"

fun split_on :: "char \<Rightarrow> string \<Rightarrow> string list" where
  \<comment> \<open>\<open>s.split(c)\<close> for a one-character separator: never the empty list\<close>
  "split_on c [] = [[]]"
| "split_on c (x # xs) =
     (if x = c then [] # split_on c xs
      else (case split_on c xs of
              [] \<Rightarrow> [[x]]
            | l # ls \<Rightarrow> (x # l) # ls))"

fun join :: "string \<Rightarrow> string list \<Rightarrow> string" where
  \<comment> \<open>\<open>sep.join(xs)\<close>\<close>
  "join sep [] = []"
| "join sep [x] = x"
| "join sep (x # y # ys) = x @ sep @ join sep (y # ys)"


definition is_upper :: "char \<Rightarrow> bool" where
  \<comment> \<open>the characters that \<open>str.lower\<close> changes: A to Z and the accented capitals\<close>
  "is_upper c =
     (let n = (of_char c :: nat)
      in (65 \<le> n \<and> n \<le> 90) \<or> (192 \<le> n \<and> n \<le> 214) \<or> (216 \<le> n \<and> n \<le> 222))"

definition lower_char :: "char \<Rightarrow> char" where
  "lower_char c = (if is_upper c then char_of (of_char c + (32 :: nat)) else c)"

definition lower :: "string \<Rightarrow> string" where
  \<comment> \<open>\<open>s.lower()\<close>\<close>
  "lower s = map lower_char s"

definition is_word :: "char \<Rightarrow> bool" where
  \<comment> \<open>the class \<open>\w\<close> of \<open>re\<close> on a \<open>str\<close> pattern: alphanumeric or underscore\<close>
  "is_word c =
     (let n = (of_char c :: nat)
      in (48 \<le> n \<and> n \<le> 57) \<or> (65 \<le> n \<and> n \<le> 90) \<or> n = 95 \<or> (97 \<le> n \<and> n \<le> 122)
         \<or> n = 170 \<or> n = 178 \<or> n = 179 \<or> n = 181 \<or> n = 185 \<or> n = 186
         \<or> (188 \<le> n \<and> n \<le> 190) \<or> (192 \<le> n \<and> n \<le> 214)
         \<or> (216 \<le> n \<and> n \<le> 246) \<or> (248 \<le> n \<and> n \<le> 255))"

fun str_nat :: "nat \<Rightarrow> string" where
  \<comment> \<open>\<open>str(n)\<close> of a non-negative integer, as an f-string prints it\<close>
  "str_nat n =
     (if n < 10 then [''0123456789'' ! n]
      else str_nat (n div 10) @ [''0123456789'' ! (n mod 10)])"

declare str_nat.simps [simp del]

section \<open>Exceptions\<close>

text \<open>
  A raised exception is a value: the name of its class and the text \<open>str(e)\<close>. The type
  stands for the instances of \<open>Exception\<close>, which are what \<open>except Exception\<close>
  catches. A computation that may raise returns \<open>exn + 'a\<close>, \<open>Inl\<close> for the exception.
\<close>

datatype exn = Exn (exn_class: string) (exn_str: string)

fun map_exn :: "('a \<Rightarrow> exn + 'b) \<Rightarrow> 'a list \<Rightarrow> exn + 'b list" where
  \<comment> \<open>a loop or comprehension that appends one result per item and stops at the first raise\<close>
  "map_exn f [] = Inr []"
| "map_exn f (x # xs) =
     (case f x of
        Inl ex \<Rightarrow> Inl ex
      | Inr y \<Rightarrow> (case map_exn f xs of Inl ex \<Rightarrow> Inl ex | Inr ys \<Rightarrow> Inr (y # ys)))"

section \<open>data_processor.py\<close>

definition CHUNK_SIZE :: nat where
  "CHUNK_SIZE = 1000"

definition CHUNK_OVERLAP :: nat where
  "CHUNK_OVERLAP = 200"

definition NUM_TOPICS :: nat where
  "NUM_TOPICS = 3"

definition MAX_FEATURES :: nat where
  "MAX_FEATURES = 5000"

record document =
  page_content :: string
  metadata :: "(string \<times> string) list"

text \<open>
  \<open>split_documents\<close> configures the text splitter of the LangChain library and returns
  what it returns. The splitter is not part of the repository: it is a parameter, taking
  the chunk size, the overlap, the length function and the documents.
\<close>

type_synonym text_splitter =
  "nat \<Rightarrow> nat \<Rightarrow> (string \<Rightarrow> nat) \<Rightarrow> document list \<Rightarrow> exn + document list"

definition split_documents :: "text_splitter \<Rightarrow> document list \<Rightarrow> exn + document list" where
  "split_documents RecursiveCharacterTextSplitter documents =
     RecursiveCharacterTextSplitter CHUNK_SIZE CHUNK_OVERLAP length documents"

text \<open>
  The NLTK resources \<open>preprocess_text\<close> uses: the tokenizer and the stop-word lists.
  Both raise \<open>LookupError\<close> when their data is absent, which is the state the two
  \<open>nltk.data.find\<close>/\<open>nltk.download\<close> blocks at the head of the function try to repair;
  the outcome of that repair is what the two fields return.
\<close>

record nltk =
  word_tokenize :: "string \<Rightarrow> exn + string list"
  stopwords_words :: "string \<Rightarrow> exn + string list"

definition preprocess_text :: "nltk \<Rightarrow> string \<Rightarrow> exn + string list" where
  "preprocess_text rt text0 =
     (let text1 = lower text0;
          text2 = filter (\<lambda>c. is_word c \<or> is_space c) text1
      in case word_tokenize rt text2 of
           Inl ex \<Rightarrow> Inl ex
         | Inr tokens \<Rightarrow>
             (case stopwords_words rt ''english'' of
                Inl ex \<Rightarrow> Inl ex
              | Inr stop_words \<Rightarrow>
                  Inr (filter (\<lambda>word. word \<notin> set stop_words \<and> length word > 1) tokens)))"

definition extract_text_from_documents :: "document list \<Rightarrow> string list" where
  "extract_text_from_documents documents = map page_content documents"

type_synonym bow = "(nat \<times> nat) list"

text \<open>
  A trained topic model, as \<open>rag_engine.py\<close> uses it: \<open>lda_model.id2word.doc2bow\<close>,
  \<open>lda_model[bow]\<close> (the posterior topic distribution, pairs of topic index and
  probability) and \<open>lda_model.show_topic(topic, topn)\<close>.
\<close>

record LdaModel =
  doc2bow :: "string list \<Rightarrow> exn + bow"
  get_topics :: "bow \<Rightarrow> exn + (nat \<times> real) list"
  show_topic :: "nat \<Rightarrow> nat \<Rightarrow> exn + (string \<times> real) list"

text \<open>
  The libraries \<open>train_lda_model\<close> calls: gensim's \<open>Dictionary\<close> (of type \<open>'d\<close>),
  scikit-learn's \<open>CountVectorizer\<close> (of type \<open>'v\<close>) and gensim's \<open>LdaModel\<close>
  constructor. The constructor draws its random numbers from \<open>random_state\<close> when one is
  given; it also receives the entropy of the process (\<open>'g\<close>), which is what it would
  use otherwise.
\<close>

record ('d, 'v, 'g) topic_lib =
  Dictionary :: "string list list \<Rightarrow> exn + 'd"
  filter_extremes :: "'d \<Rightarrow> nat \<Rightarrow> real \<Rightarrow> exn + 'd"
  dictionary_doc2bow :: "'d \<Rightarrow> string list \<Rightarrow> exn + bow"
  fit_transform :: "nat \<Rightarrow> string \<Rightarrow> string list \<Rightarrow> exn + 'v"
  LdaModel_new :: "'g \<Rightarrow> bow list \<Rightarrow> 'd \<Rightarrow> nat \<Rightarrow> nat option \<Rightarrow> nat \<Rightarrow> exn + LdaModel"

definition train_lda_model ::
  "nltk \<Rightarrow> ('d, 'v, 'g) topic_lib \<Rightarrow> 'g \<Rightarrow> string list \<Rightarrow> exn + (LdaModel \<times> 'd \<times> 'v)" where
  "train_lda_model rt lib g texts =
     (case map_exn (preprocess_text rt) texts of
        Inl ex \<Rightarrow> Inl ex
      | Inr processed_texts \<Rightarrow>
     (case Dictionary lib processed_texts of
        Inl ex \<Rightarrow> Inl ex
      | Inr dictionary0 \<Rightarrow>
     (case filter_extremes lib dictionary0 2 (1 / 2) of
        Inl ex \<Rightarrow> Inl ex
      | Inr dictionary \<Rightarrow>
     (case map_exn (dictionary_doc2bow lib dictionary) processed_texts of
        Inl ex \<Rightarrow> Inl ex
      | Inr corpus \<Rightarrow>
     (case fit_transform lib MAX_FEATURES ''english'' texts of
        Inl ex \<Rightarrow> Inl ex
      | Inr vectorizer \<Rightarrow>
     (case LdaModel_new lib g corpus dictionary NUM_TOPICS (Some 42) 10 of
        Inl ex \<Rightarrow> Inl ex
      | Inr lda_model \<Rightarrow>
     (case map_exn (\<lambda>i. show_topic lda_model i 10) [0 ..< NUM_TOPICS] of
        Inl ex \<Rightarrow> Inl ex
      | Inr printed \<Rightarrow> Inr (lda_model, dictionary, vectorizer))))))))"

section \<open>rag_engine.py\<close>

datatype chroma = Chroma (persist_directory: string)

text \<open>
  The \<open>content\<close> of a chat model's response is a \<open>str\<close> or a list of content blocks.
\<close>

datatype content = Text string | Blocks "string list"

record engine =
  vector_store :: "chroma option"
  retriever :: "(string \<Rightarrow> exn + document list) option"
  llm :: "string \<Rightarrow> exn + content"
  lda_model :: "LdaModel option"

fun max_by :: "('a \<Rightarrow> 'k::linorder) \<Rightarrow> 'a \<Rightarrow> 'a list \<Rightarrow> 'a" where
  \<comment> \<open>\<open>max(best :: xs, key=key)\<close>: a later item replaces the maximum only when its key is greater\<close>
  "max_by key best [] = best"
| "max_by key best (x # xs) = max_by key (if key best < key x then x else best) xs"

definition format_doc :: "nltk \<Rightarrow> engine \<Rightarrow> string \<Rightarrow> exn + string" where
  \<comment> \<open>the body of the loop of \<open>_format_docs_with_topics\<close>, lines 139 to 153\<close>
  "format_doc rt e content0 =
     (case lda_model e of
        None \<Rightarrow> Inr content0
      | Some m \<Rightarrow>
     (case preprocess_text rt content0 of
        Inl ex \<Rightarrow> Inl ex
      | Inr all_tokens \<Rightarrow>
     (case doc2bow m (take 50 all_tokens) of
        Inl ex \<Rightarrow> Inl ex
      | Inr bow \<Rightarrow>
     (case get_topics m bow of
        Inl ex \<Rightarrow> Inl ex
      | Inr [] \<Rightarrow> Inr content0
      | Inr (t # ts) \<Rightarrow>
          (let dominant_topic = fst (max_by snd t ts)
           in case show_topic m dominant_topic 5 of
                Inl ex \<Rightarrow> Inl ex
              | Inr topic_words \<Rightarrow>
                  (let topic_summary =
                         ''Topic '' @ str_nat (dominant_topic + 1) @ '': ''
                         @ join '', '' (map fst topic_words)
                   in Inr (''[Topic Summary: '' @ topic_summary @ '']'' @ [nl] @ content0)))))))"

definition format_docs_with_topics :: "nltk \<Rightarrow> engine \<Rightarrow> document list \<Rightarrow> exn + string" where
  "format_docs_with_topics rt e docs =
     (case map_exn (\<lambda>doc. format_doc rt e (page_content doc)) docs of
        Inl ex \<Rightarrow> Inl ex
      | Inr formatted_docs \<Rightarrow> Inr (join [nl, nl] formatted_docs))"

definition not_initialized :: string where
  "not_initialized =
     ''RAG Engine is not initialized. Please ensure the vector store is built first.''"

definition error_prefix :: string where
  "error_prefix = ''An error occurred during query execution: ''"

definition comprehensive_prompt :: "string \<Rightarrow> string \<Rightarrow> string" where
  "comprehensive_prompt context0 user_question =
     [nl]
     @ ''You are RoadSafetyGPT, a specialized AI assistant for Indian road safety, traffic, and infrastructure codes.'' @ [nl]
     @ ''Your knowledge is grounded in IRC, MoRTH, and NCRB documents. Use the provided context if relevant, otherwise provide a comprehensive answer based on standard practices and guidelines.'' @ [nl]
     @ [nl]
     @ ''Structure your response with the following sections if applicable:'' @ [nl]
     @ ''- **Intervention**: Recommended actions or guidelines.'' @ [nl]
     @ ''- **Evidence**: Supporting facts or references from documents.'' @ [nl]
     @ ''- **Severity**: Potential risks or importance level.'' @ [nl]
     @ [nl]
     @ ''CONTEXT:'' @ [nl]
     @ context0 @ [nl]
     @ [nl]
     @ ''QUESTION: '' @ user_question @ [nl]
     @ ''ANSWER:'' @ [nl]"

definition refusal_phrase :: string where
  "refusal_phrase = ''The provided context does not contain''"

definition however :: string where
  "however = ''However,''"

definition post_process :: "string \<Rightarrow> string" where
  \<comment> \<open>lines 197 to 200 of \<open>RAGEngine.query\<close>, on \<open>answer = response.content.strip()\<close>\<close>
  "post_process answer =
     (if startswith answer refusal_phrase then
        (let lines = split_on nl answer
         in if length lines > 1 \<and> startswith (strip (lines ! 1)) however
            then strip (join [nl] (drop 2 lines))
            else answer)
      else answer)"

definition content_strip :: "content \<Rightarrow> exn + string" where
  \<comment> \<open>\<open>response.content.strip()\<close>: a list has no method \<open>strip\<close>\<close>
  "content_strip c =
     (case c of
        Text s \<Rightarrow> Inr (strip s)
      | Blocks bs \<Rightarrow>
          Inl (Exn ''AttributeError''
                 (CHR 0x27 # ''list'' @ CHR 0x27 # '' object has no attribute ''
                  @ CHR 0x27 # ''strip'' @ [CHR 0x27])))"

text \<open>
  The calls \<open>query\<close> makes to the remote services, in order: the retriever embeds the
  question with the embedding service, the chat model generates the answer.
\<close>

datatype call = Retrieve string | Generate string

definition query_body ::
  "nltk \<Rightarrow> engine \<Rightarrow> string \<Rightarrow> (exn + string \<times> document list) \<times> call list" where
  \<comment> \<open>the \<open>try\<close> block of \<open>query\<close>, lines 174 to 201\<close>
  "query_body rt e user_question =
     (case retriever e of
        None \<Rightarrow>
          (Inl (Exn ''AttributeError''
                  (CHR 0x27 # ''NoneType'' @ CHR 0x27 # '' object has no attribute ''
                   @ CHR 0x27 # ''invoke'' @ [CHR 0x27])), [])
      | Some r \<Rightarrow>
     (case r user_question of
        Inl ex \<Rightarrow> (Inl ex, [Retrieve user_question])
      | Inr docs \<Rightarrow>
     (case format_docs_with_topics rt e docs of
        Inl ex \<Rightarrow> (Inl ex, [Retrieve user_question])
      | Inr context0 \<Rightarrow>
          (let prompt = comprehensive_prompt context0 user_question;
               calls = [Retrieve user_question, Generate prompt]
           in case llm e prompt of
                Inl ex \<Rightarrow> (Inl ex, calls)
              | Inr response_content \<Rightarrow>
                  (case content_strip response_content of
                     Inl ex \<Rightarrow> (Inl ex, calls)
                   | Inr answer \<Rightarrow> (Inr (post_process answer, docs), calls))))))"

definition query_run ::
  "nltk \<Rightarrow> engine \<Rightarrow> string \<Rightarrow> (exn + string \<times> document list) \<times> call list" where
  \<comment> \<open>\<open>RAGEngine.query\<close> once line 171 has printed, with the remote calls it made\<close>
  "query_run rt e user_question =
     (if vector_store e = None then (Inr (not_initialized, []), [])
      else (case query_body rt e user_question of
              (Inl ex, calls) \<Rightarrow> (Inr (error_prefix @ exn_str ex, []), calls)
            | (Inr result, calls) \<Rightarrow> (Inr result, calls)))"

definition query :: "nltk \<Rightarrow> engine \<Rightarrow> string \<Rightarrow> exn + string \<times> document list" where
  "query rt e user_question = fst (query_run rt e user_question)"




text \<open>
  What \<open>__init__\<close> obtains from its environment: the API key, the constructors of the chat
  model and of the embeddings, the loading of the persisted Chroma store, the retriever of
  a store for a given \<open>k\<close>, and the unpickling of the topic model.
\<close>

record init_env =
  GEMINI_API_KEY :: string
  ChatGoogleGenerativeAI :: "exn + (string \<Rightarrow> exn + content)"
  GoogleGenerativeAIEmbeddings :: "exn + unit"
  load_chroma :: "exn + chroma"
  as_retriever :: "chroma \<Rightarrow> nat \<Rightarrow> exn + (string \<Rightarrow> exn + document list)"
  load_lda :: "exn + LdaModel"

definition init :: "init_env \<Rightarrow> chroma option \<Rightarrow> exn + engine" where
  \<comment> \<open>\<open>RAGEngine.__init__\<close>; line 123 applies \<open>|\<close> to the retriever, which raises on \<open>None\<close>\<close>
  "init env vector_store_arg =
     (if GEMINI_API_KEY env = [] then
        Inl (Exn ''ValueError'' ''GEMINI_API_KEY environment variable is not set.'')
      else
     (case ChatGoogleGenerativeAI env of
        Inl ex \<Rightarrow> Inl ex
      | Inr the_llm \<Rightarrow>
     (case GoogleGenerativeAIEmbeddings env of
        Inl ex \<Rightarrow> Inl ex
      | Inr embeddings \<Rightarrow>
          (let store = (case vector_store_arg of
                          Some v \<Rightarrow> Some v
                        | None \<Rightarrow> (case load_chroma env of Inl ex \<Rightarrow> None | Inr v \<Rightarrow> Some v))
           in case (case store of
                      Some v \<Rightarrow> (case as_retriever env v 3 of
                                   Inl ex \<Rightarrow> Inl ex
                                 | Inr r \<Rightarrow> Inr (Some r))
                    | None \<Rightarrow> Inr None) of
                Inl ex \<Rightarrow> Inl ex
              | Inr the_retriever \<Rightarrow>
                  (let model = (case load_lda env of Inl ex \<Rightarrow> None | Inr m \<Rightarrow> Some m)
                   in case the_retriever of
                        None \<Rightarrow>
                          Inl (Exn ''TypeError''
                                 (''unsupported operand type(s) for |: ''
                                  @ CHR 0x27 # ''NoneType'' @ CHR 0x27 # '' and ''
                                  @ CHR 0x27 # ''method'' @ [CHR 0x27]))
                      | Some r \<Rightarrow>
                          Inr \<lparr> vector_store = store, retriever = the_retriever,
                                llm = the_llm, lda_model = model \<rparr>)))))"

section \<open>Sample values\<close>

text \<open>
  Concrete libraries, documents and engines on which the theorems below are exercised.
  The sample tokenizer splits at blanks; the sample topic model has three topics, the
  last two of equal weight.
\<close>

definition sample_nltk :: nltk where
  "sample_nltk =
     \<lparr> word_tokenize = (\<lambda>s. Inr (filter (\<lambda>w. w \<noteq> []) (split_on (CHR '' '') s))),
       stopwords_words = (\<lambda>language. Inr [''the'', ''is'', ''of'']) \<rparr>"

definition sample_nltk_reordered :: nltk where
  "sample_nltk_reordered =
     \<lparr> word_tokenize = (\<lambda>s. Inr (filter (\<lambda>w. w \<noteq> []) (split_on (CHR '' '') s))),
       stopwords_words = (\<lambda>language. Inr [''of'', ''is'', ''the'', ''is'']) \<rparr>"

definition sample_lda :: LdaModel where
  "sample_lda =
     \<lparr> doc2bow = (\<lambda>tokens. Inr [(0, length tokens)]),
       get_topics = (\<lambda>b. if b = [(0, 0)] then Inr []
                          else Inr [(0, 1 / 5), (1, 2 / 5), (2, 2 / 5)]),
       show_topic = (\<lambda>topic topn. Inr (take topn [(''road'', 1 / 2), (''safety'', 1 / 4)])) \<rparr>"

definition sample_doc :: document where
  "sample_doc = \<lparr> page_content = ''Zebra crossings'', metadata = [] \<rparr>"

definition sample_retriever :: "string \<Rightarrow> exn + document list" where
  "sample_retriever question = Inr [sample_doc]"

definition sample_store :: chroma where
  "sample_store = Chroma ''data/vectorstore/''"

definition engine_no_store :: engine where
  "engine_no_store =
     \<lparr> vector_store = None, retriever = None,
       llm = (\<lambda>prompt. Inr (Text ''unused'')), lda_model = None \<rparr>"

definition engine_llm_down :: engine where
  "engine_llm_down =
     \<lparr> vector_store = Some sample_store, retriever = Some sample_retriever,
       llm = (\<lambda>prompt. Inl (Exn ''ConnectionError'' ''network unreachable'')),
       lda_model = None \<rparr>"

definition hedged_answer :: string where
  "hedged_answer =
     '' The provided context does not contain the answer.'' @ [nl]
     @ ''  However, generally speaking:'' @ [nl]
     @ ''Use IRC:67.'' @ [nl]"

definition engine_hedging :: engine where
  "engine_hedging =
     \<lparr> vector_store = Some sample_store, retriever = Some sample_retriever,
       llm = (\<lambda>prompt. Inr (Text hedged_answer)), lda_model = None \<rparr>"

definition engine_topics :: engine where
  "engine_topics =
     \<lparr> vector_store = Some sample_store, retriever = Some sample_retriever,
       llm = (\<lambda>prompt. Inr (Text ''Follow IRC:67.'')), lda_model = Some sample_lda \<rparr>"




definition sample_context :: string where
  "sample_context = ''[Topic Summary: Topic 2: road, safety]'' @ [nl] @ ''Zebra crossings''"

text \<open>
  A sample training library over the natural numbers: the vectorizer raises on texts
  without any character, whose vocabulary is empty; the constructor of the topic model
  seeds its random numbers with \<open>random_state\<close> when there is one and with the entropy of
  the process otherwise; the seed shows in the probabilities of the model it returns.
\<close>

definition sample_model :: "nat \<Rightarrow> LdaModel" where
  "sample_model seed =
     \<lparr> doc2bow = (\<lambda>tokens. Inr [(0, length tokens)]),
       get_topics = (\<lambda>b. Inr [(0, 1)]),
       show_topic = (\<lambda>topic topn. Inr [(''road'', real seed)]) \<rparr>"

definition sample_lib :: "(nat, nat, nat) topic_lib" where
  "sample_lib =
     \<lparr> Dictionary = (\<lambda>processed_texts. Inr (length processed_texts)),
       filter_extremes = (\<lambda>d no_below no_above. Inr d),
       dictionary_doc2bow = (\<lambda>d tokens. Inr [(0, length tokens)]),
       fit_transform = (\<lambda>max_features stop_words texts.
                          if concat texts = [] then
                            Inl (Exn ''ValueError''
                                   ''empty vocabulary; perhaps the documents only contain stop words'')
                          else Inr (length texts)),
       LdaModel_new = (\<lambda>g corpus d num_topics random_state passes.
                         Inr (sample_model (case random_state of None \<Rightarrow> g | Some seed \<Rightarrow> seed))) \<rparr>"

section \<open>Facts about the string operations\<close>

lemma rstrip_keeps_prefix:
  assumes "p \<noteq> []" and "\<not> is_space (last p)"
  shows "\<exists>r. rstrip (p @ s) = p @ r"
proof -
  have hd: "\<not> is_space (hd (rev p))" using assms by (simp add: hd_rev)
  have np: "rev p \<noteq> []" using assms by simp
  have dp: "dropWhile is_space (rev p) = rev p"
    using hd np by (cases "rev p") auto
  have "\<exists>t. dropWhile is_space (rev s @ rev p) = t @ rev p"
  proof (cases "\<forall>x\<in>set (rev s). is_space x")
    case True
    then have "dropWhile is_space (rev s @ rev p) = dropWhile is_space (rev p)"
      by (intro dropWhile_append2) auto
    with dp show ?thesis by auto
  next
    case False
    then have "dropWhile is_space (rev s @ rev p) = dropWhile is_space (rev s) @ rev p"
      by auto
    then show ?thesis by blast
  qed
  then obtain t where "dropWhile is_space (rev s @ rev p) = t @ rev p" ..
  then have "rstrip (p @ s) = p @ rev t" by (simp add: rstrip_def)
  then show ?thesis ..
qed

lemma rstrip_is_prefix: "\<exists>r. s = rstrip s @ r"
proof -
  have "rev (takeWhile is_space (rev s) @ dropWhile is_space (rev s)) = s"
    by (simp only: takeWhile_dropWhile_id rev_rev_ident)
  then have "rev (dropWhile is_space (rev s)) @ rev (takeWhile is_space (rev s)) = s"
    by (simp only: rev_append)
  then have "s = rstrip s @ rev (takeWhile is_space (rev s))"
    by (simp only: rstrip_def)
  then show ?thesis ..
qed

lemma startswith_iff: "startswith s p \<longleftrightarrow> (\<exists>r. s = p @ r)"
proof
  assume "startswith s p"
  then have "s = p @ drop (length p) s"
    by (metis append_take_drop_id startswith_def)
  then show "\<exists>r. s = p @ r" ..
next
  assume "\<exists>r. s = p @ r"
  then show "startswith s p" by (auto simp: startswith_def)
qed

lemma startswith_rstrip:
  assumes "p \<noteq> []" and "\<not> is_space (last p)"
  shows "startswith (rstrip s) p \<longleftrightarrow> startswith s p"
proof
  assume "startswith (rstrip s) p"
  then obtain r where r: "rstrip s = p @ r" by (auto simp: startswith_iff)
  obtain r' where "s = rstrip s @ r'" using rstrip_is_prefix by blast
  with r have "s = p @ (r @ r')" by simp
  then show "startswith s p" unfolding startswith_iff by blast
next
  assume "startswith s p"
  then obtain r where "s = p @ r" by (auto simp: startswith_iff)
  with rstrip_keeps_prefix [OF assms] show "startswith (rstrip s) p"
    by (auto simp: startswith_iff)
qed

lemma however_last: "however \<noteq> [] \<and> \<not> is_space (last however)"
  by (simp add: however_def is_space_def)

lemma startswith_strip_however:
  "startswith (strip l) however \<longleftrightarrow> startswith (lstrip l) however"
  using however_last by (simp add: strip_def startswith_rstrip)

section \<open>The query interface\<close>

text \<open>
  An engine that \<open>__init__\<close> returns has a store and a retriever: when the store could not
  be loaded, the construction of the chain at line 123 raises \<open>TypeError\<close>.
\<close>

lemma init_has_store:
  "init env vector_store_arg = Inr e \<Longrightarrow> vector_store e \<noteq> None \<and> retriever e \<noteq> None"
  by (auto simp: init_def Let_def split: if_splits sum.splits option.splits)

lemma query_run_success:
  assumes "vector_store e \<noteq> None" and "retriever e = Some r" and "r q = Inr docs"
    and "format_docs_with_topics rt e docs = Inr ctx"
    and "llm e (comprehensive_prompt ctx q) = Inr (Text generated)"
  shows "query_run rt e q =
           (Inr (post_process (strip generated), docs),
            [Retrieve q, Generate (comprehensive_prompt ctx q)])"
  using assms by (simp add: query_run_def query_body_def content_strip_def Let_def)



lemma query_body_Inr:
  assumes "fst (query_body rt e q) = Inr (answer, chunks)"
  shows "\<exists>r ctx generated. retriever e = Some r \<and> r q = Inr chunks
           \<and> format_docs_with_topics rt e chunks = Inr ctx
           \<and> llm e (comprehensive_prompt ctx q) = Inr (Text generated)
           \<and> answer = post_process (strip generated)"
  using assms
  by (auto simp: query_body_def content_strip_def Let_def
           split: option.splits sum.splits content.splits)

text \<open>
  Claim C1. When no vector store is loaded, \<open>query\<close> returns the fixed message
  "RAG Engine is not initialized. Please ensure the vector store is built first." with
  an empty list of chunks, for every question; it does not raise and calls no remote
  service.
\<close>

theorem query_not_initialized:
  "vector_store e = None \<Longrightarrow>
     query rt e q = Inr (not_initialized, []) \<and> snd (query_run rt e q) = []"
  by (simp add: query_def query_run_def)




text \<open>
  Claim C5. When retrieval, formatting and generation succeed, the answer \<open>query\<close>
  returns is determined by the stripped response: if it begins with the refusal phrase
  "The provided context does not contain" and its second line, without its leading
  whitespace, begins with "However,", the first two lines are removed and the remaining
  lines are returned (joined by newlines and stripped); in every other case the stripped
  response is returned as it is.
\<close>

theorem query_strips_refusal:
  assumes "vector_store e \<noteq> None" and "retriever e = Some r" and "r q = Inr docs"
    and "format_docs_with_topics rt e docs = Inr ctx"
    and "llm e (comprehensive_prompt ctx q) = Inr (Text generated)"
  shows "query rt e q =
           Inr (let answer = strip generated; lines = split_on nl answer
                in if startswith answer refusal_phrase \<and> 1 < length lines
                      \<and> startswith (lstrip (lines ! 1)) however
                   then strip (join [nl] (drop 2 lines))
                   else answer,
                docs)"
  using query_run_success [OF assms]
  by (simp add: query_def post_process_def Let_def startswith_strip_however)

text \<open>
  Claim C9. On every successful query the chunks returned are exactly the documents the
  retriever returned for the question, in the same order and unmodified; the context
  built from them by the topic enrichment goes into the prompt of the generation call
  and nowhere else.
\<close>

theorem query_returns_retrieved_docs:
  assumes "vector_store e \<noteq> None" and "fst (query_body rt e q) = Inr (answer, chunks)"
  shows "query rt e q = Inr (answer, chunks) \<and>
         (\<exists>r ctx. retriever e = Some r \<and> r q = Inr chunks
            \<and> format_docs_with_topics rt e chunks = Inr ctx
            \<and> snd (query_run rt e q) = [Retrieve q, Generate (comprehensive_prompt ctx q)])"
proof -
  from query_body_Inr [OF assms(2)] obtain r ctx generated where
    h: "retriever e = Some r" "r q = Inr chunks" "format_docs_with_topics rt e chunks = Inr ctx"
       "llm e (comprehensive_prompt ctx q) = Inr (Text generated)"
       "answer = post_process (strip generated)"
    by blast
  from query_run_success [OF assms(1) h(1) h(2) h(3) h(4)] h show ?thesis
    by (simp add: query_def)
qed

section \<open>Topic enrichment\<close>

text \<open>
  Claim C10. When a topic model is loaded and the posterior topic distribution computed
  for the bag of words of the first 50 tokens of a chunk is empty, the enrichment leaves
  the text of that chunk unmodified and does not raise.
\<close>

theorem format_doc_empty_distribution:
  assumes "lda_model e = Some m" and "preprocess_text rt content0 = Inr tokens"
    and "doc2bow m (take 50 tokens) = Inr b" and "get_topics m b = Inr []"
  shows "format_doc rt e content0 = Inr content0"
  using assms by (simp add: format_doc_def)








section \<open>Text preprocessing\<close>

lemma of_char_bound: "(of_char c :: nat) < 256"
  by simp

lemma lower_char_not_upper: "\<not> is_upper (lower_char c)"
proof (cases "is_upper c")
  case False
  then show ?thesis by (simp add: lower_char_def)
next
  case True
  define n where "n = (of_char c :: nat)"
  have n: "(65 \<le> n \<and> n \<le> 90) \<or> (192 \<le> n \<and> n \<le> 214) \<or> (216 \<le> n \<and> n \<le> 222)"
    using True by (simp add: is_upper_def n_def Let_def)
  then have "n + 32 < 256" by arith
  then have "(of_char (char_of (n + 32)) :: nat) = n + 32" by simp
  then have "is_upper (char_of (n + 32)) \<longleftrightarrow>
      (65 \<le> n + 32 \<and> n + 32 \<le> 90) \<or> (192 \<le> n + 32 \<and> n + 32 \<le> 214)
      \<or> (216 \<le> n + 32 \<and> n + 32 \<le> 222)"
    by (simp add: is_upper_def Let_def)
  moreover have "\<not> ((65 \<le> n + 32 \<and> n + 32 \<le> 90) \<or> (192 \<le> n + 32 \<and> n + 32 \<le> 214)
      \<or> (216 \<le> n + 32 \<and> n + 32 \<le> 222))"
    using n by arith
  ultimately have "\<not> is_upper (char_of (n + 32))" by blast
  then show ?thesis using True by (simp add: lower_char_def n_def)
qed

lemma lower_fixed: "\<forall>c\<in>set w. \<not> is_upper c \<Longrightarrow> lower w = w"
  by (induction w) (simp_all add: lower_def lower_char_def)

lemma lower_no_upper: "c \<in> set (lower s) \<Longrightarrow> \<not> is_upper c"
  by (auto simp: lower_def lower_char_not_upper)

lemma preprocess_text_Inr:
  assumes "preprocess_text rt text0 = Inr out"
  shows "\<exists>tokens sw.
           word_tokenize rt (filter (\<lambda>c. is_word c \<or> is_space c) (lower text0)) = Inr tokens
           \<and> stopwords_words rt ''english'' = Inr sw
           \<and> out = filter (\<lambda>w. w \<notin> set sw \<and> length w > 1) tokens"
  using assms by (auto simp: preprocess_text_def Let_def split: sum.splits)

text \<open>
  Claim C6. \<open>preprocess_text\<close> lowercases the text, removes every character that is
  neither a word character nor whitespace, tokenizes, and removes the tokens that are
  English stop-words or of length at most 1, in this order. Every token of the result is
  longer than 1 and is not a stop-word; it is lowercase, for a tokenizer whose tokens
  consist of characters of its input. The result depends on the stop-word list only through
  the set of its words.
\<close>

theorem preprocess_text_pipeline:
  "preprocess_text rt text0 =
     (case word_tokenize rt (filter (\<lambda>c. is_word c \<or> is_space c) (lower text0)) of
        Inl ex \<Rightarrow> Inl ex
      | Inr tokens \<Rightarrow>
          (case stopwords_words rt ''english'' of
             Inl ex \<Rightarrow> Inl ex
           | Inr sw \<Rightarrow> Inr (filter (\<lambda>w. \<not> (w \<in> set sw \<or> length w \<le> 1)) tokens))) \<and>
   (preprocess_text rt text0 = Inr out \<and> stopwords_words rt ''english'' = Inr sw \<longrightarrow>
      (\<forall>w\<in>set out. 1 < length w \<and> w \<notin> set sw)) \<and>
   (preprocess_text rt text0 = Inr out \<and>
    (\<forall>s toks. word_tokenize rt s = Inr toks \<longrightarrow> (\<forall>t\<in>set toks. set t \<subseteq> set s)) \<longrightarrow>
      (\<forall>w\<in>set out. lower w = w \<and> (\<forall>c\<in>set w. \<not> is_upper c))) \<and>
   (word_tokenize rt' = word_tokenize rt \<and> stopwords_words rt ''english'' = Inr sw \<and>
    stopwords_words rt' ''english'' = Inr sw' \<and> set sw' = set sw \<longrightarrow>
      preprocess_text rt' text0 = preprocess_text rt text0)"
proof (intro conjI impI)
  show "preprocess_text rt text0 =
     (case word_tokenize rt (filter (\<lambda>c. is_word c \<or> is_space c) (lower text0)) of
        Inl ex \<Rightarrow> Inl ex
      | Inr tokens \<Rightarrow>
          (case stopwords_words rt ''english'' of
             Inl ex \<Rightarrow> Inl ex
           | Inr sw \<Rightarrow> Inr (filter (\<lambda>w. \<not> (w \<in> set sw \<or> length w \<le> 1)) tokens)))"
    by (simp add: preprocess_text_def Let_def not_le split: sum.splits)
next
  assume h: "preprocess_text rt text0 = Inr out \<and> stopwords_words rt ''english'' = Inr sw"
  from preprocess_text_Inr [of rt text0 out] h
  show "\<forall>w\<in>set out. 1 < length w \<and> w \<notin> set sw" by auto
next
  assume h: "preprocess_text rt text0 = Inr out \<and>
    (\<forall>s toks. word_tokenize rt s = Inr toks \<longrightarrow> (\<forall>t\<in>set toks. set t \<subseteq> set s))"
  from preprocess_text_Inr [of rt text0 out] h obtain tokens sw0 where
    tk: "word_tokenize rt (filter (\<lambda>c. is_word c \<or> is_space c) (lower text0)) = Inr tokens"
    and out: "out = filter (\<lambda>w. w \<notin> set sw0 \<and> length w > 1) tokens"
    by blast
  show "\<forall>w\<in>set out. lower w = w \<and> (\<forall>c\<in>set w. \<not> is_upper c)"
  proof
    fix w assume "w \<in> set out"
    then have "w \<in> set tokens" using out by simp
    with h tk have "set w \<subseteq> set (filter (\<lambda>c. is_word c \<or> is_space c) (lower text0))"
      by blast
    then have "set w \<subseteq> set (lower text0)" by auto
    then have nu: "\<forall>c\<in>set w. \<not> is_upper c" using lower_no_upper by blast
    then show "lower w = w \<and> (\<forall>c\<in>set w. \<not> is_upper c)" using lower_fixed by blast
  qed
next
  assume "word_tokenize rt' = word_tokenize rt \<and> stopwords_words rt ''english'' = Inr sw \<and>
    stopwords_words rt' ''english'' = Inr sw' \<and> set sw' = set sw"
  then show "preprocess_text rt' text0 = preprocess_text rt text0"
    by (auto simp: preprocess_text_def Let_def split: sum.splits)
qed

section \<open>Training of the topic model\<close>

text \<open>
  Claim C7. Two runs of \<open>train_lda_model\<close> on the same texts return the same result,
  whatever the entropy of the two processes, for a library whose training is determined
  by its arguments once a seed is given: the model is fitted with 3 topics, the seed 42
  and 10 passes.
\<close>

theorem train_lda_model_deterministic:
  assumes "\<forall>g g' corpus d k seed passes.
             LdaModel_new lib g corpus d k (Some seed) passes
             = LdaModel_new lib g' corpus d k (Some seed) passes"
  shows "train_lda_model rt lib g texts = train_lda_model rt lib g' texts \<and>
         (train_lda_model rt lib g texts = Inr (m, d, v) \<longrightarrow>
            (\<exists>corpus. LdaModel_new lib g corpus d 3 (Some 42) 10 = Inr m))"
proof
  have "\<And>corpus d. LdaModel_new lib g corpus d NUM_TOPICS (Some 42) 10
          = LdaModel_new lib g' corpus d NUM_TOPICS (Some 42) 10"
    using assms by blast
  then show "train_lda_model rt lib g texts = train_lda_model rt lib g' texts"
    by (simp add: train_lda_model_def split: sum.splits)
next
  show "train_lda_model rt lib g texts = Inr (m, d, v) \<longrightarrow>
          (\<exists>corpus. LdaModel_new lib g corpus d 3 (Some 42) 10 = Inr m)"
    by (auto simp: train_lda_model_def NUM_TOPICS_def split: sum.splits)
qed

section \<open>Validation of the input\<close>

lemma query_run_first_call:
  assumes "vector_store e \<noteq> None" and "retriever e = Some r"
  shows "\<exists>calls. snd (query_run rt e q) = Retrieve q # calls"
  using assms
  by (auto simp: query_run_def query_body_def Let_def split: sum.splits prod.splits)

lemma train_empty_corpus:
  "train_lda_model rt lib g [] =
     (case Dictionary lib [] of
        Inl ex \<Rightarrow> Inl ex
      | Inr d0 \<Rightarrow>
     (case filter_extremes lib d0 2 (1 / 2) of
        Inl ex \<Rightarrow> Inl ex
      | Inr d \<Rightarrow>
     (case fit_transform lib MAX_FEATURES ''english'' [] of
        Inl ex \<Rightarrow> Inl ex
      | Inr v \<Rightarrow>
     (case LdaModel_new lib g [] d NUM_TOPICS (Some 42) 10 of
        Inl ex \<Rightarrow> Inl ex
      | Inr m \<Rightarrow>
     (case map_exn (\<lambda>i. show_topic m i 10) [0 ..< NUM_TOPICS] of
        Inl ex \<Rightarrow> Inl ex
      | Inr printed \<Rightarrow> Inr (m, d, v))))))"
  by (simp add: train_lda_model_def split: sum.splits)

text \<open>
  Claim C8, as amended. Training on an empty corpus fails with an error instead of
  producing a model: the vectorizer raising on the empty list of texts (scikit-learn's
  "empty vocabulary" \<open>ValueError\<close>), \<open>train_lda_model\<close> raises, with that very error when
  the two calls on the dictionary before it succeed, and the constructor of the topic
  model has no part in the result. An empty question is not rejected: with a store
  loaded, \<open>query\<close> starts with the retrieval call for the empty question, as for any
  other question, and when that call raises, the error-message answer is returned.
\<close>

theorem empty_input_handling:
  "(fit_transform lib MAX_FEATURES ''english'' [] = Inl ex_v \<longrightarrow>
      (\<exists>ex'. train_lda_model rt lib g [] = Inl ex') \<and>
      (\<forall>d0 d. Dictionary lib [] = Inr d0 \<and> filter_extremes lib d0 2 (1 / 2) = Inr d \<longrightarrow>
         train_lda_model rt lib g [] = Inl ex_v) \<and>
      (\<forall>f. train_lda_model rt (lib\<lparr>LdaModel_new := f\<rparr>) g [] = train_lda_model rt lib g [])) \<and>
   (vector_store e \<noteq> None \<and> retriever e = Some r \<longrightarrow>
      (\<exists>calls. snd (query_run rt e []) = Retrieve [] # calls)) \<and>
   (vector_store e \<noteq> None \<and> retriever e = Some r \<and> r [] = Inl ex \<longrightarrow>
      query_run rt e [] = (Inr (error_prefix @ exn_str ex, []), [Retrieve []]))"
proof (intro conjI impI allI)
  assume "fit_transform lib MAX_FEATURES ''english'' [] = Inl ex_v"
  then show "\<exists>ex'. train_lda_model rt lib g [] = Inl ex'"
    by (simp add: train_empty_corpus split: sum.splits)
next
  fix d0 d
  assume "fit_transform lib MAX_FEATURES ''english'' [] = Inl ex_v"
    and "Dictionary lib [] = Inr d0 \<and> filter_extremes lib d0 2 (1 / 2) = Inr d"
  then show "train_lda_model rt lib g [] = Inl ex_v"
    by (simp add: train_empty_corpus)
next
  fix f
  assume "fit_transform lib MAX_FEATURES ''english'' [] = Inl ex_v"
  then show "train_lda_model rt (lib\<lparr>LdaModel_new := f\<rparr>) g [] = train_lda_model rt lib g []"
    by (simp add: train_empty_corpus split: sum.splits)
next
  assume "vector_store e \<noteq> None \<and> retriever e = Some r"
  then show "\<exists>calls. snd (query_run rt e []) = Retrieve [] # calls"
    using query_run_first_call by blast
next
  assume "vector_store e \<noteq> None \<and> retriever e = Some r \<and> r [] = Inl ex"
  then show "query_run rt e [] = (Inr (error_prefix @ exn_str ex, []), [Retrieve []])"
    by (simp add: query_run_def query_body_def)
qed


section \<open>The theorems on the sample values\<close>

theorem query_not_initialized_witness:
  "vector_store engine_no_store = None \<and>
   query sample_nltk engine_no_store ''anything'' = Inr (not_initialized, []) \<and>
   snd (query_run sample_nltk engine_no_store ''anything'') = []"
  using query_not_initialized [of engine_no_store sample_nltk "''anything''"]
  by (simp add: engine_no_store_def)

lemma sample_plain_context:
  "format_docs_with_topics sample_nltk engine_llm_down [sample_doc] = Inr ''Zebra crossings''"
  by (simp add: format_docs_with_topics_def format_doc_def engine_llm_down_def sample_doc_def)



lemma hedged_answer_value:
  "(let answer = strip hedged_answer; lines = split_on nl answer
    in if startswith answer refusal_phrase \<and> 1 < length lines
          \<and> startswith (lstrip (lines ! 1)) however
       then strip (join [nl] (drop 2 lines))
       else answer) = ''Use IRC:67.''"
  by code_simp

theorem query_strips_refusal_witness:
  "query sample_nltk engine_hedging ''q'' = Inr (''Use IRC:67.'', [sample_doc])"
proof -
  have 1: "vector_store engine_hedging \<noteq> None" by (simp add: engine_hedging_def)
  have 2: "retriever engine_hedging = Some sample_retriever" by (simp add: engine_hedging_def)
  have 3: "sample_retriever ''q'' = Inr [sample_doc]" by (simp add: sample_retriever_def)
  have 4: "format_docs_with_topics sample_nltk engine_hedging [sample_doc]
             = Inr ''Zebra crossings''"
    by (simp add: format_docs_with_topics_def format_doc_def engine_hedging_def sample_doc_def)
  have 5: "llm engine_hedging (comprehensive_prompt ''Zebra crossings'' ''q'')
             = Inr (Text hedged_answer)"
    by (simp add: engine_hedging_def)
  from query_strips_refusal [OF 1 2 3 4 5] show ?thesis
    by (simp only: hedged_answer_value)
qed

lemma sample_topic_context:
  "format_docs_with_topics sample_nltk engine_topics [sample_doc] = Inr sample_context"
  by code_simp

lemma sample_preprocess:
  "preprocess_text sample_nltk ''Zebra crossings'' = Inr [''zebra'', ''crossings'']"
  by code_simp

theorem query_returns_retrieved_docs_witness:
  "query sample_nltk engine_topics ''q'' = Inr (''Follow IRC:67.'', [sample_doc]) \<and>
   snd (query_run sample_nltk engine_topics ''q'')
     = [Retrieve ''q'', Generate (comprehensive_prompt sample_context ''q'')]"
proof -
  have 1: "vector_store engine_topics \<noteq> None" by (simp add: engine_topics_def)
  have 2: "retriever engine_topics = Some sample_retriever" by (simp add: engine_topics_def)
  have 3: "sample_retriever ''q'' = Inr [sample_doc]" by (simp add: sample_retriever_def)
  have 5: "llm engine_topics (comprehensive_prompt sample_context ''q'')
             = Inr (Text ''Follow IRC:67.'')"
    by (simp add: engine_topics_def)
  have 6: "post_process (strip ''Follow IRC:67.'') = ''Follow IRC:67.''" by code_simp
  have run: "query_run sample_nltk engine_topics ''q'' =
           (Inr (''Follow IRC:67.'', [sample_doc]),
            [Retrieve ''q'', Generate (comprehensive_prompt sample_context ''q'')])"
    using query_run_success [OF 1 2 3 sample_topic_context 5] by (simp only: 6)
  then have body: "fst (query_body sample_nltk engine_topics ''q'')
                     = Inr (''Follow IRC:67.'', [sample_doc])"
    using 1 by (auto simp: query_run_def split: prod.splits sum.splits)
  from query_returns_retrieved_docs [OF 1 body] run show ?thesis by simp
qed

theorem format_doc_empty_distribution_witness:
  "format_doc sample_nltk engine_topics ''!'' = Inr ''!''"
proof -
  have 1: "lda_model engine_topics = Some sample_lda" by (simp add: engine_topics_def)
  have 2: "preprocess_text sample_nltk ''!'' = Inr []" by code_simp
  have 3: "doc2bow sample_lda (take 50 []) = Inr [(0, 0)]" by (simp add: sample_lda_def)
  have 4: "get_topics sample_lda [(0, 0)] = Inr []" by (simp add: sample_lda_def)
  from format_doc_empty_distribution [OF 1 2 3 4] show ?thesis .
qed


lemma split_on_chars: "t \<in> set (split_on c s) \<Longrightarrow> x \<in> set t \<Longrightarrow> x \<in> set s"
proof (induction s arbitrary: t)
  case Nil
  then show ?case by simp
next
  case (Cons a s)
  show ?case
  proof (cases "a = c")
    case True
    with Cons show ?thesis by auto
  next
    case False
    obtain l ls where sp: "split_on c s = l # ls"
      by (cases "split_on c s") (cases s, auto split: if_splits list.splits)
    with False Cons.prems have "t = a # l \<or> t \<in> set ls" by auto
    then show ?thesis
    proof
      assume "t = a # l"
      with Cons.prems(2) have "x = a \<or> x \<in> set l" by auto
      with Cons.IH [of l] sp show ?thesis by auto
    next
      assume "t \<in> set ls"
      with Cons.IH [of t] sp Cons.prems(2) show ?thesis by auto
    qed
  qed
qed

theorem preprocess_text_pipeline_witness:
  "preprocess_text sample_nltk ''The Zebra, crossing is A of IRC:67!''
     = Inr [''zebra'', ''crossing'', ''irc67''] \<and>
   lower ''irc67'' = ''irc67'' \<and>
   preprocess_text sample_nltk_reordered ''The Zebra, crossing is A of IRC:67!''
     = preprocess_text sample_nltk ''The Zebra, crossing is A of IRC:67!''"
proof -
  have v: "preprocess_text sample_nltk ''The Zebra, crossing is A of IRC:67!''
     = Inr [''zebra'', ''crossing'', ''irc67'']"
    by code_simp
  have sw: "stopwords_words sample_nltk ''english'' = Inr [''the'', ''is'', ''of'']"
    by (simp add: sample_nltk_def)
  have sw': "stopwords_words sample_nltk_reordered ''english'' = Inr [''of'', ''is'', ''the'', ''is'']"
    by (simp add: sample_nltk_reordered_def)
  have tk: "word_tokenize sample_nltk_reordered = word_tokenize sample_nltk"
    by (simp add: sample_nltk_def sample_nltk_reordered_def)
  have sets: "set [''of'', ''is'', ''the'', ''is''] = set [''the'', ''is'', ''of'']" by auto
  have contract: "\<forall>s toks. word_tokenize sample_nltk s = Inr toks \<longrightarrow>
                   (\<forall>t\<in>set toks. set t \<subseteq> set s)"
    by (auto simp: sample_nltk_def dest: split_on_chars)
  from preprocess_text_pipeline
    [of sample_nltk "''The Zebra, crossing is A of IRC:67!''"
        "[''zebra'', ''crossing'', ''irc67'']" "[''the'', ''is'', ''of'']"
        sample_nltk_reordered "[''of'', ''is'', ''the'', ''is'']"]
    v sw sw' tk sets contract
  show ?thesis by auto
qed

theorem train_lda_model_deterministic_witness:
  "train_lda_model sample_nltk sample_lib 1 [''Zebra crossings'']
     = train_lda_model sample_nltk sample_lib 2 [''Zebra crossings''] \<and>
   train_lda_model sample_nltk sample_lib 1 [''Zebra crossings''] = Inr (sample_model 42, 1, 1)"
proof -
  have c: "\<forall>g g' corpus d k seed passes.
             LdaModel_new sample_lib g corpus d k (Some seed) passes
             = LdaModel_new sample_lib g' corpus d k (Some seed) passes"
    by (simp add: sample_lib_def)
  have v: "train_lda_model sample_nltk sample_lib 1 [''Zebra crossings'']
             = Inr (sample_model 42, 1, 1)"
    by (simp add: train_lda_model_def sample_preprocess sample_lib_def sample_model_def
                  NUM_TOPICS_def upt_rec)
  from train_lda_model_deterministic [OF c, of sample_nltk 1 "[''Zebra crossings'']" 2] v
  show ?thesis by simp
qed

text \<open>
  Claim C8 as stated fails: on the sample engine the empty question is not rejected.
  It is sent to the retriever, the generation service is called, and the generated answer
  is returned with the retrieved chunk.
\<close>

theorem empty_question_counterexample:
  "query sample_nltk engine_topics [] = Inr (''Follow IRC:67.'', [sample_doc]) \<and>
   snd (query_run sample_nltk engine_topics [])
     = [Retrieve [], Generate (comprehensive_prompt sample_context [])]"
proof -
  have 1: "vector_store engine_topics \<noteq> None" by (simp add: engine_topics_def)
  have 2: "retriever engine_topics = Some sample_retriever" by (simp add: engine_topics_def)
  have 3: "sample_retriever [] = Inr [sample_doc]" by (simp add: sample_retriever_def)
  have 5: "llm engine_topics (comprehensive_prompt sample_context [])
             = Inr (Text ''Follow IRC:67.'')"
    by (simp add: engine_topics_def)
  have 6: "post_process (strip ''Follow IRC:67.'') = ''Follow IRC:67.''" by code_simp
  from query_run_success [OF 1 2 3 sample_topic_context 5] show ?thesis
    by (simp add: query_def 6)
qed

theorem empty_input_handling_witness:
  "train_lda_model sample_nltk sample_lib 7 []
     = Inl (Exn ''ValueError''
              ''empty vocabulary; perhaps the documents only contain stop words'') \<and>
   snd (query_run sample_nltk engine_llm_down [])
     = [Retrieve [], Generate (comprehensive_prompt ''Zebra crossings'' [])]"
proof -
  have v: "fit_transform sample_lib MAX_FEATURES ''english'' []
             = Inl (Exn ''ValueError''
                      ''empty vocabulary; perhaps the documents only contain stop words'')"
    by (simp add: sample_lib_def)
  have d: "Dictionary sample_lib [] = Inr 0 \<and> filter_extremes sample_lib 0 2 (1 / 2) = Inr 0"
    by (simp add: sample_lib_def)
  have 1: "vector_store engine_llm_down \<noteq> None \<and> retriever engine_llm_down = Some sample_retriever"
    by (simp add: engine_llm_down_def)
  have a: "snd (query_run sample_nltk engine_llm_down [])
     = [Retrieve [], Generate (comprehensive_prompt ''Zebra crossings'' [])]"
    using sample_plain_context
    by (simp add: query_run_def query_body_def engine_llm_down_def sample_retriever_def)
  from empty_input_handling
    [where lib = sample_lib and rt = sample_nltk and g = "7 :: nat" and e = engine_llm_down
       and r = sample_retriever
       and ex_v = "Exn ''ValueError''
                     ''empty vocabulary; perhaps the documents only contain stop words''"]
    v d 1 a
  show ?thesis by blast
qed


end
